theory Spec2Isabelle
  imports Complex_Main "HOL-Library.Word"
begin

section \<open>Strings and numbers of the host language\<close>

text \<open>
  A string of the source language is a sequence of 16-bit code units, and its
  \<open>length\<close> counts code units. A literal of the source is written \<open>str ''...''\<close>.
\<close>

type_synonym jschar = "16 word"
type_synonym jsstring = "jschar list"

definition str :: "string \<Rightarrow> jsstring" where
  "str s = map of_char s"

text \<open>
  A \<open>number\<close> of the source language is an IEEE double: not-a-number, one of the two
  infinities, or a finite value, which is a real number. The comparison \<open>a > b\<close> is
  exact on the values and false as soon as one side is \<open>NaN\<close>.
\<close>

datatype number = NaN | PosInfinity | NegInfinity | Finite real

fun number_gt :: "number \<Rightarrow> number \<Rightarrow> bool" where
  "number_gt NaN _ = False"
| "number_gt _ NaN = False"
| "number_gt PosInfinity b = (b \<noteq> PosInfinity)"
| "number_gt NegInfinity _ = False"
| "number_gt (Finite x) PosInfinity = False"
| "number_gt (Finite x) NegInfinity = True"
| "number_gt (Finite x) (Finite y) = (x > y)"

section \<open>Domain state types (campaign.state.ts)\<close>

record TimeSlot =
  startTime :: jsstring
  endTime :: jsstring

text \<open>
  The field \<open>type\<close> of \<open>MediaAsset\<close> is declared \<open>"image" | "video"\<close>, and the rule
  validator keeps a guard for data that crosses the boundary with another value, so the
  field is a string here. In the same way \<open>screenIds\<close> is declared non-empty and checked
  at run time, so it is a list.
\<close>

record MediaAsset =
  url :: jsstring
  media_type :: jsstring
  sizeInMb :: number

record CampaignDraft =
  name :: jsstring
  startDate :: jsstring
  endDate :: jsstring
  screenIds :: "jsstring list"
  timeSlots :: "TimeSlot list"
  mediaAsset :: MediaAsset

datatype ValidationErrorCode =
    EMPTY_NAME
  | INVALID_DATE_RANGE
  | INVALID_DATE_FORMAT
  | OVERLAPPING_TIME_SLOTS
  | EMPTY_SCREEN_SELECTION
  | MEDIA_SIZE_EXCEEDS_LIMIT
  | MEDIA_TYPE_NOT_ALLOWED
  | INVALID_TIME_FORMAT

record ValidationError =
  code :: ValidationErrorCode
  message :: jsstring

record SystemError =
  sys_message :: jsstring

text \<open>
  The eight variants of the discriminated union \<open>CampaignCreationState\<close>. The errors of
  \<open>invalid\<close> are declared \<open>[ValidationError, ...ValidationError[]]\<close>: an array at run
  time, whose declared type asks for a first element.
\<close>

datatype CampaignCreationState =
    Idle
  | Editing CampaignDraft
  | Validating CampaignDraft
  | Invalid CampaignDraft "ValidationError list"
  | Conflict_detected CampaignDraft
  | Ready_to_publish CampaignDraft
  | Published jsstring
  | Error SystemError

section \<open>Validation result (campaign.validation.ts)\<close>

datatype CampaignValidationResult =
    invalid "ValidationError list"
  | conflict
  | valid

section \<open>State machine (campaign.machine.ts)\<close>

datatype CampaignEvent =
    START_CREATION
  | UPDATE_DRAFT CampaignDraft
  | VALIDATE
  | VALIDATION_RESULT CampaignValidationResult
  | PUBLISH jsstring
  | SYSTEM_ERROR SystemError

definition empty_draft :: CampaignDraft where
  "empty_draft =
     \<lparr> name = str '''', startDate = str '''', endDate = str '''',
       screenIds = [str ''''], timeSlots = [],
       mediaAsset = \<lparr> url = str '''', media_type = str ''image'', sizeInMb = Finite 0 \<rparr> \<rparr>"

text \<open>
  The check for \<open>SYSTEM_ERROR\<close> comes first; the other equations are the \<open>switch\<close> on
  the status, and the last one is every \<open>return state\<close> of the source.
\<close>

fun transition :: "CampaignCreationState \<Rightarrow> CampaignEvent \<Rightarrow> CampaignCreationState" where
  "transition state (SYSTEM_ERROR err) = Error err"
| "transition Idle START_CREATION = Editing empty_draft"
| "transition (Editing draft) (UPDATE_DRAFT d) = Editing d"
| "transition (Editing draft) VALIDATE = Validating draft"
| "transition (Validating draft) (VALIDATION_RESULT (invalid errors)) = Invalid draft errors"
| "transition (Validating draft) (VALIDATION_RESULT conflict) = Conflict_detected draft"
| "transition (Validating draft) (VALIDATION_RESULT valid) = Ready_to_publish draft"
| "transition (Invalid draft errors) (UPDATE_DRAFT d) = Editing d"
| "transition (Conflict_detected draft) (UPDATE_DRAFT d) = Editing d"
| "transition (Ready_to_publish draft) (PUBLISH campaignId) = Published campaignId"
| "transition state _ = state"

section \<open>Built-in functions of the host language\<close>

text \<open>
  \<open>Date.parse\<close> and the conversion of a number to a string (in a template literal) are
  built-ins of the host, not code of this program: the rules take them as parameters.
  \<open>Date.parse\<close> returns a whole number of milliseconds or \<open>NaN\<close>, which is \<open>None\<close>.
\<close>

record builtins =
  Date_parse :: "jsstring \<Rightarrow> int option"
  Number_toString :: "number \<Rightarrow> jsstring"

text \<open>
  A whole number or \<open>NaN\<close> (\<open>None\<close>): the results of \<open>parseInt\<close>, \<open>parseHHmm\<close> and
  \<open>Date.parse\<close>. Arithmetic on \<open>NaN\<close> gives \<open>NaN\<close>, a comparison with \<open>NaN\<close> is false.
\<close>

definition isNaN :: "int option \<Rightarrow> bool" where
  "isNaN x = (x = None)"

definition num_ge :: "int option \<Rightarrow> int option \<Rightarrow> bool" where
  "num_ge a b = (case (a, b) of (Some x, Some y) \<Rightarrow> x \<ge> y | _ \<Rightarrow> False)"

definition num_gt :: "int option \<Rightarrow> int option \<Rightarrow> bool" where
  "num_gt a b = (case (a, b) of (Some x, Some y) \<Rightarrow> x > y | _ \<Rightarrow> False)"

definition num_sub :: "int option \<Rightarrow> int option \<Rightarrow> int option" where
  "num_sub a b = (case (a, b) of (Some x, Some y) \<Rightarrow> Some (x - y) | _ \<Rightarrow> None)"

text \<open>White space and line terminators, as \<open>trim\<close> and \<open>parseInt\<close> strip them.\<close>

definition is_white_space :: "jschar \<Rightarrow> bool" where
  "is_white_space c =
     (c \<in> {0x09, 0x0A, 0x0B, 0x0C, 0x0D, 0x20, 0xA0, 0x1680, 0x2028, 0x2029, 0x202F,
            0x205F, 0x3000, 0xFEFF} \<or> (0x2000 \<le> c \<and> c \<le> 0x200A))"

definition trim :: "jsstring \<Rightarrow> jsstring" where
  "trim s = rev (dropWhile is_white_space (rev (dropWhile is_white_space s)))"

definition is_digit :: "jschar \<Rightarrow> bool" where
  "is_digit c = (0x30 \<le> c \<and> c \<le> 0x39)"

definition digit_value :: "jschar \<Rightarrow> int" where
  "digit_value c = uint c - 0x30"

text \<open>
  \<open>parseInt(s, 10)\<close>: white space is skipped, then a sign, then the longest run of
  decimal digits is read; no digit gives \<open>NaN\<close>. (The value is exact below \<open>2^53\<close>,
  far above the two digits it is given here.)
\<close>

definition parseInt :: "jsstring \<Rightarrow> int option" where
  "parseInt s =
     (let t = dropWhile is_white_space s;
          sign = (if t \<noteq> [] \<and> hd t = 0x2D then - 1 else 1);
          u = (if t \<noteq> [] \<and> (hd t = 0x2D \<or> hd t = 0x2B) then tl t else t);
          ds = takeWhile is_digit u
      in if ds = [] then None
         else Some (sign * foldl (\<lambda>n c. 10 * n + digit_value c) 0 ds))"

subsection \<open>Regular expressions\<close>

text \<open>
  The fragment the two patterns of the program use: one code unit, a range of code
  units, sequence, alternative and a capturing group. \<open>rmatch r s\<close> lists, in the order
  of backtracking, the ways \<open>r\<close> matches a prefix of \<open>s\<close>: the captures and the rest.
\<close>

datatype regex =
    Unit jschar
  | Range jschar jschar
  | Seq regex regex
  | Alt regex regex
  | Group regex

fun rmatch :: "regex \<Rightarrow> jsstring \<Rightarrow> (jsstring list \<times> jsstring) list" where
  "rmatch (Unit a) s = (case s of [] \<Rightarrow> [] | c # cs \<Rightarrow> if c = a then [([], cs)] else [])"
| "rmatch (Range lo hi) s =
     (case s of [] \<Rightarrow> [] | c # cs \<Rightarrow> if lo \<le> c \<and> c \<le> hi then [([], cs)] else [])"
| "rmatch (Seq r1 r2) s =
     concat (map (\<lambda>(g1, rest). map (\<lambda>(g2, rest'). (g1 @ g2, rest')) (rmatch r2 rest))
                 (rmatch r1 s))"
| "rmatch (Alt r1 r2) s = rmatch r1 s @ rmatch r2 s"
| "rmatch (Group r) s =
     map (\<lambda>(g, rest). (take (length s - length rest) s # g, rest)) (rmatch r s)"

text \<open>
  \<open>/^r$/.exec(s)\<close>: without the \<open>m\<close> flag \<open>^\<close> and \<open>$\<close> are the two ends of the input.
  The match array holds the whole match at index 0, then the captures; no match is
  \<open>null\<close>, here \<open>None\<close>.
\<close>

definition regex_exec :: "regex \<Rightarrow> jsstring \<Rightarrow> jsstring list option" where
  "regex_exec r s =
     (case filter (\<lambda>(g, rest). rest = []) (rmatch r s) of
        [] \<Rightarrow> None
      | (g, rest) # _ \<Rightarrow> Some (s # g))"

definition regex_test :: "regex \<Rightarrow> jsstring \<Rightarrow> bool" where
  "regex_test r s = (regex_exec r s \<noteq> None)"

definition digit :: regex where
  "digit = Range 0x30 0x39"

definition colon :: regex where
  "colon = Unit 0x3A"

text \<open>A group that matches exactly two code units, under a condition on them.\<close>

definition two_units :: "regex \<Rightarrow> (jschar \<Rightarrow> jschar \<Rightarrow> bool) \<Rightarrow> bool" where
  "two_units r P \<longleftrightarrow>
     rmatch r [] = [] \<and> (\<forall>a. rmatch r [a] = [])
     \<and> (\<forall>a b rest. rmatch r (a # b # rest) = (if P a b then [([[a, b]], rest)] else []))"

section \<open>Validation rules (campaign.rules.ts)\<close>

definition makeError :: "ValidationErrorCode \<Rightarrow> jsstring \<Rightarrow> ValidationError" where
  "makeError c m = \<lparr> code = c, message = m \<rparr>"

text \<open>The pattern \<open>/^(\d{2}):(\d{2})$/\<close> of \<open>parseHHmm\<close>.\<close>

definition HHmm_pattern :: regex where
  "HHmm_pattern = Seq (Group (Seq digit digit)) (Seq colon (Group (Seq digit digit)))"

definition parseHHmm :: "jsstring \<Rightarrow> int option" where
  "parseHHmm v =
     (case regex_exec HHmm_pattern v of
        None \<Rightarrow> None
      | Some match \<Rightarrow>
          (case (parseInt (match ! 1), parseInt (match ! 2)) of
             (Some hours, Some minutes) \<Rightarrow>
               if hours > 23 \<or> minutes > 59 then None else Some (hours * 60 + minutes)
           | _ \<Rightarrow> None))"

definition validateName :: "CampaignDraft \<Rightarrow> ValidationError list" where
  "validateName draft =
     (if length (trim (name draft)) = 0
      then [makeError EMPTY_NAME (str ''Campaign name must not be empty.'')]
      else [])"

definition validateDateRange :: "builtins \<Rightarrow> CampaignDraft \<Rightarrow> ValidationError list" where
  "validateDateRange env draft =
     (let start = Date_parse env (startDate draft);
          finish = Date_parse env (endDate draft)
      in if isNaN start \<or> isNaN finish
         then [makeError INVALID_DATE_FORMAT
                 (str ''startDate and endDate must be valid ISO 8601 strings.'')]
         else if num_ge start finish
         then [makeError INVALID_DATE_RANGE (str ''startDate must be before endDate.'')]
         else [])"

definition validateScreenIds :: "CampaignDraft \<Rightarrow> ValidationError list" where
  "validateScreenIds draft =
     (if length (screenIds draft) = 0
      then [makeError EMPTY_SCREEN_SELECTION (str ''At least one screen must be selected.'')]
      else [])"

text \<open>The en dash of the messages is the code unit \<open>0x2013\<close>, the quotation mark \<open>0x22\<close>.\<close>

definition quote :: jsstring where
  "quote = [0x22]"

definition en_dash :: jsstring where
  "en_dash = [0x2013]"

text \<open>The body of the first loop of \<open>validateTimeSlots\<close>: the errors one slot adds.\<close>

definition slot_errors :: "TimeSlot \<Rightarrow> ValidationError list" where
  "slot_errors slot =
     (let start = parseHHmm (startTime slot);
          finish = parseHHmm (endTime slot)
      in if isNaN start \<or> isNaN finish
         then [makeError INVALID_TIME_FORMAT
                 (str ''Time slot '' @ quote @ startTime slot @ str '' '' @ en_dash @ str '' ''
                  @ endTime slot @ quote @ str '' contains an invalid HH:mm value.'')]
         else if num_ge start finish
         then [makeError INVALID_TIME_FORMAT
                 (str ''Time slot startTime '' @ quote @ startTime slot @ quote
                  @ str '' must be before endTime '' @ quote @ endTime slot @ quote
                  @ str ''.'')]
         else [])"

text \<open>
  \<open>Array.prototype.sort\<close> with a comparator: the sort is stable, and a comparator value
  \<open>NaN\<close> counts as \<open>0\<close>. With a consistent comparator that fixes the result, which
  insertion from the right computes.
\<close>

definition sort_compare :: "('a \<Rightarrow> 'a \<Rightarrow> int option) \<Rightarrow> 'a \<Rightarrow> 'a \<Rightarrow> int" where
  "sort_compare cmp a b = (case cmp a b of None \<Rightarrow> 0 | Some v \<Rightarrow> v)"

fun insert_sorted :: "('a \<Rightarrow> 'a \<Rightarrow> int option) \<Rightarrow> 'a \<Rightarrow> 'a list \<Rightarrow> 'a list" where
  "insert_sorted cmp x [] = [x]"
| "insert_sorted cmp x (y # ys) =
     (if sort_compare cmp x y \<le> 0 then x # y # ys else y # insert_sorted cmp x ys)"

definition array_sort :: "('a \<Rightarrow> 'a \<Rightarrow> int option) \<Rightarrow> 'a list \<Rightarrow> 'a list" where
  "array_sort cmp xs = foldr (insert_sorted cmp) xs []"

definition compare_start :: "TimeSlot \<Rightarrow> TimeSlot \<Rightarrow> int option" where
  "compare_start a b = num_sub (parseHHmm (startTime a)) (parseHHmm (startTime b))"

text \<open>The second loop of \<open>validateTimeSlots\<close>, over the adjacent pairs of \<open>sorted\<close>.\<close>

fun overlap_errors :: "TimeSlot list \<Rightarrow> ValidationError list" where
  "overlap_errors (cur # nxt # rest) =
     (let currentEnd = parseHHmm (endTime cur);
          nextStart = parseHHmm (startTime nxt)
      in (if num_gt currentEnd nextStart
          then [makeError OVERLAPPING_TIME_SLOTS
                  (str ''Time slot '' @ quote @ startTime cur @ en_dash @ endTime cur @ quote
                   @ str '' overlaps with '' @ quote @ startTime nxt @ en_dash @ endTime nxt
                   @ quote @ str ''.'')]
          else [])
         @ overlap_errors (nxt # rest))"
| "overlap_errors _ = []"

definition validateTimeSlots :: "CampaignDraft \<Rightarrow> ValidationError list" where
  "validateTimeSlots draft =
     (let errors = concat (map slot_errors (timeSlots draft))
      in if length errors = 0
         then errors @ overlap_errors (array_sort compare_start (timeSlots draft))
         else errors)"

definition validateMediaAsset :: "builtins \<Rightarrow> CampaignDraft \<Rightarrow> ValidationError list" where
  "validateMediaAsset env draft =
     (if number_gt (sizeInMb (mediaAsset draft)) (Finite 50)
      then [makeError MEDIA_SIZE_EXCEEDS_LIMIT
              (str ''Media asset size '' @ Number_toString env (sizeInMb (mediaAsset draft))
               @ str '' MB exceeds the 50 MB limit.'')]
      else [])
     @ (if media_type (mediaAsset draft) \<noteq> str ''image''
           \<and> media_type (mediaAsset draft) \<noteq> str ''video''
        then [makeError MEDIA_TYPE_NOT_ALLOWED
                (str ''Media type '' @ quote @ media_type (mediaAsset draft) @ quote
                 @ str '' is not allowed. Must be '' @ quote @ str ''image'' @ quote
                 @ str '' or '' @ quote @ str ''video'' @ quote @ str ''.'')]
        else [])"

definition validateCampaignDraft :: "builtins \<Rightarrow> CampaignDraft \<Rightarrow> ValidationError list" where
  "validateCampaignDraft env draft =
     validateName draft @ validateDateRange env draft @ validateScreenIds draft
     @ validateTimeSlots draft @ validateMediaAsset env draft"

section \<open>Validate use case (validateCampaign.usecase.ts)\<close>

text \<open>
  The result \<open>[errors[0]!, ...errors.slice(1)]\<close> is built only when \<open>errors\<close> has an
  element, so \<open>hd\<close> is read on a non-empty list.
\<close>

fun validateCampaign :: "builtins \<Rightarrow> CampaignCreationState \<Rightarrow> CampaignCreationState" where
  "validateCampaign env (Editing draft) =
     (case transition (Editing draft) VALIDATE of
        Validating vdraft \<Rightarrow>
          (let errors = validateCampaignDraft env vdraft;
               result = (if length errors > 0 then invalid (hd errors # drop 1 errors)
                         else valid)
           in transition (Validating vdraft) (VALIDATION_RESULT result))
      | _ \<Rightarrow> Editing draft)"
| "validateCampaign env state = state"

section \<open>Boundary contract (campaign.schema.ts)\<close>

text \<open>
  The pattern \<open>/^([01]\d|2[0-3]):([0-5]\d)$/\<close> that \<open>TimeSlotSchema\<close> asks of
  \<open>startTime\<close> and of \<open>endTime\<close>.
\<close>

definition TimeSlotSchema_pattern :: regex where
  "TimeSlotSchema_pattern =
     Seq (Group (Alt (Seq (Range 0x30 0x31) digit) (Seq (Unit 0x32) (Range 0x30 0x33))))
         (Seq colon (Group (Seq (Range 0x30 0x35) digit)))"

section \<open>The words of the specification\<close>

text \<open>
  The transition table of the specification, row by row: the pairs of a state and an
  event for which the table lists a transition.
\<close>

fun listed_in_table :: "CampaignCreationState \<Rightarrow> CampaignEvent \<Rightarrow> bool" where
  "listed_in_table Idle START_CREATION = True"
| "listed_in_table (Editing _) (UPDATE_DRAFT _) = True"
| "listed_in_table (Editing _) VALIDATE = True"
| "listed_in_table (Validating _) (VALIDATION_RESULT (invalid _)) = True"
| "listed_in_table (Validating _) (VALIDATION_RESULT conflict) = True"
| "listed_in_table (Validating _) (VALIDATION_RESULT valid) = True"
| "listed_in_table (Invalid _ _) (UPDATE_DRAFT _) = True"
| "listed_in_table (Conflict_detected _) (UPDATE_DRAFT _) = True"
| "listed_in_table (Ready_to_publish _) (PUBLISH _) = True"
| "listed_in_table _ (SYSTEM_ERROR _) = True"
| "listed_in_table _ _ = False"

text \<open>
  A caller drives the machine by dispatching events and by calling the use case. An
  event is well typed when the errors of an \<open>invalid\<close> result have a first element, as
  the declared type \<open>[ValidationError, ...ValidationError[]]\<close> asks.
\<close>

datatype step = Dispatch CampaignEvent | Validate_use_case

fun well_typed_event :: "CampaignEvent \<Rightarrow> bool" where
  "well_typed_event (VALIDATION_RESULT (invalid errors)) = (errors \<noteq> [])"
| "well_typed_event _ = True"

fun well_typed_step :: "step \<Rightarrow> bool" where
  "well_typed_step (Dispatch event) = well_typed_event event"
| "well_typed_step Validate_use_case = True"

fun run_step :: "builtins \<Rightarrow> CampaignCreationState \<Rightarrow> step \<Rightarrow> CampaignCreationState" where
  "run_step env state (Dispatch event) = transition state event"
| "run_step env state Validate_use_case = validateCampaign env state"

definition run :: "builtins \<Rightarrow> CampaignCreationState \<Rightarrow> step list \<Rightarrow> CampaignCreationState" where
  "run env state steps = foldl (run_step env) state steps"

fun errors_nonempty :: "CampaignCreationState \<Rightarrow> bool" where
  "errors_nonempty (Invalid draft errors) = (length errors \<ge> 1)"
| "errors_nonempty _ = True"

text \<open>
  A time slot is well formed when both times are valid \<open>HH:mm\<close> and the start is before
  the end. Overlap, in the words of the specification: sort the slots by start time
  ascending, then look for an adjacent pair whose earlier end exceeds the later start.
\<close>

definition well_formed :: "TimeSlot \<Rightarrow> bool" where
  "well_formed slot =
     (case (parseHHmm (startTime slot), parseHHmm (endTime slot)) of
        (Some s, Some e) \<Rightarrow> s < e
      | _ \<Rightarrow> False)"

definition start_minutes :: "TimeSlot \<Rightarrow> int" where
  "start_minutes slot = the (parseHHmm (startTime slot))"

definition end_minutes :: "TimeSlot \<Rightarrow> int" where
  "end_minutes slot = the (parseHHmm (endTime slot))"

definition sorted_by_start :: "TimeSlot list \<Rightarrow> TimeSlot list" where
  "sorted_by_start slots = sort_key start_minutes slots"

definition adjacent_overlap :: "TimeSlot list \<Rightarrow> bool" where
  "adjacent_overlap xs = list_ex (\<lambda>(a, b). end_minutes a > start_minutes b) (zip xs (tl xs))"

section \<open>Sample data\<close>

text \<open>
  The valid draft of \<open>campaign.rules.test.ts\<close>, and an excerpt of the built-ins that
  is enough for the samples: \<open>Date.parse\<close> on the three timestamps of those tests (any
  other string of the samples is not a date), and the decimal text of the sizes used.
\<close>

definition validDraft :: CampaignDraft where
  "validDraft =
     \<lparr> name = str ''Summer Sale'',
       startDate = str ''2026-06-01T00:00:00Z'',
       endDate = str ''2026-06-30T23:59:59Z'',
       screenIds = [str ''screen-1''],
       timeSlots = [\<lparr> startTime = str ''08:00'', endTime = str ''12:00'' \<rparr>,
                    \<lparr> startTime = str ''13:00'', endTime = str ''17:00'' \<rparr>],
       mediaAsset = \<lparr> url = str ''https://example.com/asset.jpg'', media_type = str ''image'',
                      sizeInMb = Finite 10 \<rparr> \<rparr>"

text \<open>
  Time slots: the overlapping pair of the tests, a touching pair (given out of order),
  and a list whose first slot is malformed.
\<close>

definition overlappingSlots :: "TimeSlot list" where
  "overlappingSlots = [\<lparr> startTime = str ''08:00'', endTime = str ''12:00'' \<rparr>,
                       \<lparr> startTime = str ''11:00'', endTime = str ''15:00'' \<rparr>]"

definition touchingSlots :: "TimeSlot list" where
  "touchingSlots = [\<lparr> startTime = str ''12:00'', endTime = str ''15:00'' \<rparr>,
                    \<lparr> startTime = str ''08:00'', endTime = str ''12:00'' \<rparr>]"

definition malformedSlots :: "TimeSlot list" where
  "malformedSlots = [\<lparr> startTime = str ''25:00'', endTime = str ''12:00'' \<rparr>,
                     \<lparr> startTime = str ''08:00'', endTime = str ''12:00'' \<rparr>,
                     \<lparr> startTime = str ''11:00'', endTime = str ''15:00'' \<rparr>]"

definition sample_builtins :: builtins where
  "sample_builtins =
     \<lparr> Date_parse = (\<lambda>s.
         if s = str ''2026-06-01T00:00:00Z'' then Some 1780272000000
         else if s = str ''2026-06-30T23:59:59Z'' then Some 1782863999000
         else if s = str ''2026-06-30T00:00:00Z'' then Some 1782777600000
         else None),
       Number_toString = (\<lambda>n.
         if n = Finite 10 then str ''10''
         else if n = Finite 51 then str ''51''
         else if n = Finite 50 then str ''50''
         else if n = Finite 0 then str ''0''
         else str ''NaN'') \<rparr>"

section \<open>Properties of the state machine\<close>

text \<open>
  C2. \<open>SYSTEM_ERROR\<close> has precedence: from every state, whichever of the eight variants
  it is, the event \<open>SYSTEM_ERROR\<close> leads to the \<open>error\<close> state that carries the error of
  the event.
\<close>

theorem system_error_precedence:
  "transition s (SYSTEM_ERROR err) = Error err"
  by simp

text \<open>
  C1, as the claim states it, fails: \<open>SYSTEM_ERROR\<close> takes \<open>published\<close> to \<open>error\<close>.
\<close>

theorem published_system_error_counterexample:
  "transition (Published (str ''x'')) (SYSTEM_ERROR \<lparr> sys_message = str ''m'' \<rparr>)
     \<noteq> Published (str ''x'')"
  by simp

text \<open>
  C1, amended. From \<open>published\<close> and from \<open>error\<close>, every event other than
  \<open>SYSTEM_ERROR\<close> returns the state unchanged, and \<open>SYSTEM_ERROR\<close> leads from both to the
  \<open>error\<close> state that carries the error of the event.
\<close>

theorem terminal_states:
  "transition (Published campaignId) e =
     (case e of SYSTEM_ERROR err \<Rightarrow> Error err | _ \<Rightarrow> Published campaignId)
   \<and> transition (Error m) e = (case e of SYSTEM_ERROR err \<Rightarrow> Error err | _ \<Rightarrow> Error m)"
  by (cases e) simp_all

text \<open>
  C5. For every pair of a state and an event that the transition table does not list,
  \<open>transition\<close> returns the state it was given. (\<open>transition\<close> is a total function: its
  equations cover every pair, and none of them fails.)
\<close>

theorem noop_identity:
  "\<not> listed_in_table s e \<Longrightarrow> transition s e = s"
  by (cases "(s, e)" rule: listed_in_table.cases) simp_all

theorem noop_identity_witness:
  "\<not> listed_in_table (Ready_to_publish validDraft) START_CREATION
   \<and> transition (Ready_to_publish validDraft) START_CREATION = Ready_to_publish validDraft"
  using noop_identity [of "Ready_to_publish validDraft" START_CREATION] by simp

section \<open>Properties of the use case\<close>

lemma hd_drop: "xs \<noteq> [] \<Longrightarrow> hd xs # drop (Suc 0) xs = xs"
  by (cases xs) simp_all

lemma validateCampaign_Editing:
  "validateCampaign env (Editing draft) =
     (if validateCampaignDraft env draft = [] then Ready_to_publish draft
      else Invalid draft (validateCampaignDraft env draft))"
  by (simp add: Let_def hd_drop)

lemma transition_keeps:
  "errors_nonempty s \<Longrightarrow> well_typed_event e \<Longrightarrow> errors_nonempty (transition s e)"
  by (cases "(s, e)" rule: transition.cases) (simp_all add: Suc_le_eq)

lemma validateCampaign_keeps:
  "errors_nonempty s \<Longrightarrow> errors_nonempty (validateCampaign env s)"
  by (cases s) (simp_all add: validateCampaign_Editing Suc_le_eq del: validateCampaign.simps(1))

lemma run_keeps:
  "errors_nonempty s \<Longrightarrow> \<forall>st\<in>set steps. well_typed_step st \<Longrightarrow>
   errors_nonempty (run env s steps)"
proof (induction steps arbitrary: s)
  case Nil
  then show ?case by (simp add: run_def)
next
  case (Cons st steps)
  have "errors_nonempty (run_step env s st)"
    using Cons.prems by (cases st) (simp_all add: transition_keeps validateCampaign_keeps)
  then have "errors_nonempty (run env (run_step env s st) steps)"
    using Cons.IH Cons.prems(2) by simp
  then show ?case by (simp add: run_def)
qed

text \<open>
  C3. For every draft on which the rule validator returns no error, \<open>validateCampaign\<close>
  takes \<open>editing\<close> with that draft to \<open>ready_to_publish\<close> with the same draft; and
  \<open>validateCampaign\<close> reaches \<open>ready_to_publish\<close> from \<open>editing\<close> only when the rule
  validator returned no error.
\<close>

theorem valid_draft_happy_path:
  "(validateCampaignDraft env draft = [] \<longrightarrow>
      validateCampaign env (Editing draft) = Ready_to_publish draft)
   \<and> ((\<exists>d. validateCampaign env (Editing draft) = Ready_to_publish d) \<longrightarrow>
      validateCampaignDraft env draft = [])"
  by (simp add: validateCampaign_Editing del: validateCampaign.simps(1))

theorem valid_draft_happy_path_witness:
  "validateCampaignDraft sample_builtins validDraft = []
   \<and> validateCampaign sample_builtins (Editing validDraft) = Ready_to_publish validDraft"
proof -
  have h: "validateCampaignDraft sample_builtins validDraft = []"
    by code_simp
  show ?thesis
    using h valid_draft_happy_path [of sample_builtins validDraft] by blast
qed

text \<open>
  C6. Every state reached from \<open>idle\<close> by a sequence of dispatched events and calls of
  \<open>validateCampaign\<close> is, when it is \<open>invalid\<close>, one with at least one error; and
  \<open>validateCampaign\<close> keeps this from any state that has it. (The events are those of
  the declared type: an \<open>invalid\<close> result carries a first error.)
\<close>

theorem invalid_errors_nonempty:
  "((\<forall>st\<in>set steps. well_typed_step st) \<longrightarrow> errors_nonempty (run env Idle steps))
   \<and> (errors_nonempty s \<longrightarrow> errors_nonempty (validateCampaign env s))"
  using run_keeps [of Idle steps env] validateCampaign_keeps [of s env] by simp

theorem invalid_errors_nonempty_witness:
  "well_typed_step (Dispatch START_CREATION) \<and> well_typed_step Validate_use_case
   \<and> errors_nonempty (run sample_builtins Idle [Dispatch START_CREATION, Validate_use_case])
   \<and> (case run sample_builtins Idle [Dispatch START_CREATION, Validate_use_case] of
         Invalid d errors \<Rightarrow> map code errors | _ \<Rightarrow> [])
       = [EMPTY_NAME, INVALID_DATE_FORMAT]
   \<and> errors_nonempty (Editing empty_draft)
   \<and> errors_nonempty (validateCampaign sample_builtins (Editing empty_draft))"
proof -
  have h: "\<forall>st\<in>set [Dispatch START_CREATION, Validate_use_case]. well_typed_step st"
    by simp
  have r: "(case run sample_builtins Idle [Dispatch START_CREATION, Validate_use_case] of
              Invalid d errors \<Rightarrow> map code errors | _ \<Rightarrow> [])
           = [EMPTY_NAME, INVALID_DATE_FORMAT]"
    by code_simp
  show ?thesis
    using h r
      invalid_errors_nonempty [of "[Dispatch START_CREATION, Validate_use_case]"
        sample_builtins "Editing empty_draft"]
    by simp
qed

section \<open>The two readings of a time\<close>

lemma list_shapes:
  "s = [] \<or> (\<exists>a. s = [a]) \<or> (\<exists>a b. s = [a, b]) \<or> (\<exists>a b c. s = [a, b, c])
   \<or> (\<exists>a b c d. s = [a, b, c, d]) \<or> (\<exists>a b c d e. s = [a, b, c, d, e])
   \<or> (\<exists>a b c d e f r. s = a # b # c # d # e # f # r)"
proof (cases "length s \<le> 5")
  case True
  then have "length s = 0 \<or> length s = 1 \<or> length s = 2 \<or> length s = 3
             \<or> length s = 4 \<or> length s = 5"
    by arith
  then show ?thesis
    by (auto simp add: length_Suc_conv eval_nat_numeral)
next
  case False
  then have "Suc (Suc (Suc (Suc (Suc (Suc 0))))) \<le> length s" by simp
  then show ?thesis
    by (auto simp add: Suc_le_length_iff)
qed

lemma digit_not_space: "is_digit c \<Longrightarrow> \<not> is_white_space c \<and> c \<noteq> 0x2D \<and> c \<noteq> 0x2B"
  by (auto simp add: is_digit_def is_white_space_def word_le_def)

lemma parseInt_two_digits:
  "is_digit a \<Longrightarrow> is_digit b \<Longrightarrow> parseInt [a, b] = Some (10 * digit_value a + digit_value b)"
  by (simp add: parseInt_def digit_not_space)

lemma rmatch_digit:
  "rmatch digit [] = []"
  "rmatch digit (c # cs) = (if is_digit c then [([], cs)] else [])"
  by (simp_all add: digit_def is_digit_def)

lemma rmatch_colon:
  "rmatch colon [] = []"
  "rmatch colon (c # cs) = (if c = 0x3A then [([], cs)] else [])"
  by (simp_all add: colon_def)

lemma two_units_digits:
  "two_units (Group (Seq digit digit)) (\<lambda>a b. is_digit a \<and> is_digit b)"
  by (simp add: two_units_def rmatch_digit)

lemma two_units_hours:
  "two_units (Group (Alt (Seq (Range 0x30 0x31) digit) (Seq (Unit 0x32) (Range 0x30 0x33))))
     (\<lambda>a b. (0x30 \<le> a \<and> a \<le> 0x31 \<and> is_digit b) \<or> (a = 0x32 \<and> 0x30 \<le> b \<and> b \<le> 0x33))"
  by (auto simp add: two_units_def rmatch_digit)

lemma two_units_minutes:
  "two_units (Group (Seq (Range 0x30 0x35) digit)) (\<lambda>a b. 0x30 \<le> a \<and> a \<le> 0x35 \<and> is_digit b)"
  by (simp add: two_units_def rmatch_digit)

lemma exec_time_five:
  assumes "two_units r1 P1" and "two_units r2 P2"
  shows "regex_exec (Seq r1 (Seq colon r2)) [a, b, c, d, e] =
           (if P1 a b \<and> c = 0x3A \<and> P2 d e then Some [[a, b, c, d, e], [a, b], [d, e]] else None)"
  using assms by (simp add: two_units_def regex_exec_def rmatch_colon)

lemma exec_time_other:
  assumes "two_units r1 P1" and "two_units r2 P2" and "length s \<noteq> 5"
  shows "regex_exec (Seq r1 (Seq colon r2)) s = None"
proof -
  have r1: "rmatch r1 [] = []" "\<And>a. rmatch r1 [a] = []"
    "\<And>a b rest. rmatch r1 (a # b # rest) = (if P1 a b then [([[a, b]], rest)] else [])"
    using assms(1) by (simp_all add: two_units_def)
  have r2: "rmatch r2 [] = []" "\<And>a. rmatch r2 [a] = []"
    "\<And>a b rest. rmatch r2 (a # b # rest) = (if P2 a b then [([[a, b]], rest)] else [])"
    using assms(2) by (simp_all add: two_units_def)
  from list_shapes [of s] assms(3) show ?thesis
    by (elim disjE exE) (simp_all add: regex_exec_def rmatch_colon r1 r2)
qed

lemma exec_HHmm_pattern_five:
  "regex_exec HHmm_pattern [a, b, c, d, e] =
     (if is_digit a \<and> is_digit b \<and> c = 0x3A \<and> is_digit d \<and> is_digit e
      then Some [[a, b, c, d, e], [a, b], [d, e]] else None)"
  unfolding HHmm_pattern_def
  by (simp add: exec_time_five [OF two_units_digits two_units_digits])

lemma exec_HHmm_pattern_other:
  "length s \<noteq> 5 \<Longrightarrow> regex_exec HHmm_pattern s = None"
  unfolding HHmm_pattern_def
  by (rule exec_time_other [OF two_units_digits two_units_digits])

lemma test_TimeSlotSchema_pattern_five:
  "regex_test TimeSlotSchema_pattern [a, b, c, d, e] =
     (((0x30 \<le> a \<and> a \<le> 0x31 \<and> is_digit b) \<or> (a = 0x32 \<and> 0x30 \<le> b \<and> b \<le> 0x33))
          \<and> c = 0x3A \<and> 0x30 \<le> d \<and> d \<le> 0x35 \<and> is_digit e)"
  unfolding TimeSlotSchema_pattern_def regex_test_def
  by (simp add: exec_time_five [OF two_units_hours two_units_minutes])

lemma test_TimeSlotSchema_pattern_other:
  "length s \<noteq> 5 \<Longrightarrow> \<not> regex_test TimeSlotSchema_pattern s"
  unfolding TimeSlotSchema_pattern_def regex_test_def
  by (simp add: exec_time_other [OF two_units_hours two_units_minutes])

lemma parseHHmm_five:
  "parseHHmm [a, b, c, d, e] =
     (if is_digit a \<and> is_digit b \<and> c = 0x3A \<and> is_digit d \<and> is_digit e
         \<and> 10 * digit_value a + digit_value b \<le> 23
         \<and> 10 * digit_value d + digit_value e \<le> 59
      then Some ((10 * digit_value a + digit_value b) * 60 + (10 * digit_value d + digit_value e))
      else None)"
  by (auto simp add: parseHHmm_def exec_HHmm_pattern_five parseInt_two_digits)

lemma parseHHmm_other: "length s \<noteq> 5 \<Longrightarrow> parseHHmm s = None"
  by (simp add: parseHHmm_def exec_HHmm_pattern_other)

lemma in_range_digit:
  "0x30 \<le> a \<Longrightarrow> a \<le> 0x31 \<Longrightarrow> is_digit a"
  "0x30 \<le> a \<Longrightarrow> a \<le> 0x33 \<Longrightarrow> is_digit a"
  "0x30 \<le> a \<Longrightarrow> a \<le> 0x35 \<Longrightarrow> is_digit a"
  "is_digit 0x32"
  by (simp_all add: is_digit_def word_le_def)

lemma hours_range:
  "is_digit a \<Longrightarrow> is_digit b \<Longrightarrow>
   (10 * digit_value a + digit_value b \<le> 23) =
   ((0x30 \<le> a \<and> a \<le> 0x31) \<or> (a = 0x32 \<and> 0x30 \<le> b \<and> b \<le> 0x33))"
  by (auto simp add: is_digit_def digit_value_def word_le_def word_uint_eq_iff)

lemma minutes_range:
  "is_digit a \<Longrightarrow> is_digit b \<Longrightarrow>
   (10 * digit_value a + digit_value b \<le> 59) = (0x30 \<le> a \<and> a \<le> 0x35)"
  by (auto simp add: is_digit_def digit_value_def word_le_def word_uint_eq_iff)

text \<open>
  C9. The boundary contract and the domain parser accept the same time strings: a string
  matches the pattern of \<open>TimeSlotSchema\<close> if and only if \<open>parseHHmm\<close> returns a minute
  count for it, not \<open>NaN\<close>.
\<close>

theorem boundary_domain_HHmm_agree:
  "regex_test TimeSlotSchema_pattern s \<longleftrightarrow> parseHHmm s \<noteq> None"
proof (cases "length s = 5")
  case True
  then obtain a b c d e where s: "s = [a, b, c, d, e]"
    by (auto simp add: length_Suc_conv eval_nat_numeral)
  show ?thesis
  proof (cases "is_digit a \<and> is_digit b \<and> is_digit d \<and> is_digit e")
    case True
    then show ?thesis
      by (simp add: s test_TimeSlotSchema_pattern_five parseHHmm_five hours_range minutes_range)
  next
    case False
    then show ?thesis
      by (auto simp add: s test_TimeSlotSchema_pattern_five parseHHmm_five in_range_digit)
  qed
next
  case False
  then show ?thesis
    by (simp add: test_TimeSlotSchema_pattern_other parseHHmm_other)
qed

section \<open>Properties of the rules\<close>

lemma code_makeError [simp]: "code (makeError c m) = c"
  by (simp add: makeError_def)

lemma codes_validateName: "set (map code (validateName d)) \<subseteq> {EMPTY_NAME}"
  by (auto simp add: validateName_def)

lemma codes_validateDateRange:
  "set (map code (validateDateRange env d)) \<subseteq> {INVALID_DATE_FORMAT, INVALID_DATE_RANGE}"
  by (auto simp add: validateDateRange_def Let_def)

lemma codes_validateScreenIds:
  "set (map code (validateScreenIds d)) = (if screenIds d = [] then {EMPTY_SCREEN_SELECTION} else {})"
  by (simp add: validateScreenIds_def)

lemma codes_slot_errors:
  "map code (slot_errors slot) = (if well_formed slot then [] else [INVALID_TIME_FORMAT])"
  by (auto simp add: slot_errors_def well_formed_def isNaN_def num_ge_def Let_def split: option.splits)

lemma slot_errors_empty: "(concat (map slot_errors slots) = []) = (\<forall>slot\<in>set slots. well_formed slot)"
proof -
  have "\<And>slot. (slot_errors slot = []) = well_formed slot"
    using codes_slot_errors by (metis list.simps(8) map_is_Nil_conv not_Cons_self2)
  then show ?thesis by (induction slots) simp_all
qed

lemma codes_all_slot_errors:
  "set (map code (concat (map slot_errors slots))) \<subseteq> {INVALID_TIME_FORMAT}"
  by (induction slots) (simp_all add: codes_slot_errors)

lemma codes_overlap_errors:
  "set (map code (overlap_errors xs)) \<subseteq> {OVERLAPPING_TIME_SLOTS}"
  by (induction xs rule: overlap_errors.induct) (auto simp add: Let_def)

lemma codes_validateMediaAsset:
  "map code (validateMediaAsset env d) =
     (if number_gt (sizeInMb (mediaAsset d)) (Finite 50) then [MEDIA_SIZE_EXCEEDS_LIMIT] else [])
     @ (if media_type (mediaAsset d) \<noteq> str ''image'' \<and> media_type (mediaAsset d) \<noteq> str ''video''
        then [MEDIA_TYPE_NOT_ALLOWED] else [])"
  by (simp add: validateMediaAsset_def)

lemma codes_validateTimeSlots:
  "set (map code (validateTimeSlots d)) \<subseteq> {INVALID_TIME_FORMAT, OVERLAPPING_TIME_SLOTS}"
  using codes_all_slot_errors [of "timeSlots d"]
    codes_overlap_errors [of "array_sort compare_start (timeSlots d)"]
  by (auto simp add: validateTimeSlots_def Let_def)

lemma codes_validateCampaignDraft:
  "set (map code (validateCampaignDraft env d)) =
     set (map code (validateName d)) \<union> set (map code (validateDateRange env d))
     \<union> set (map code (validateScreenIds d)) \<union> set (map code (validateTimeSlots d))
     \<union> set (map code (validateMediaAsset env d))"
  by (simp add: validateCampaignDraft_def Un_assoc)

lemma other_rules_no_date_code:
  "filter (\<lambda>c. c = INVALID_DATE_FORMAT \<or> c = INVALID_DATE_RANGE) (map code (validateName d)) = []"
  "filter (\<lambda>c. c = INVALID_DATE_FORMAT \<or> c = INVALID_DATE_RANGE) (map code (validateScreenIds d)) = []"
  "filter (\<lambda>c. c = INVALID_DATE_FORMAT \<or> c = INVALID_DATE_RANGE) (map code (validateTimeSlots d)) = []"
  "filter (\<lambda>c. c = INVALID_DATE_FORMAT \<or> c = INVALID_DATE_RANGE) (map code (validateMediaAsset env d)) = []"
  using codes_validateName [of d] codes_validateScreenIds [of d] codes_validateTimeSlots [of d]
  by (auto simp add: filter_empty_conv codes_validateMediaAsset split: if_splits)

lemma codes_date_filter:
  "filter (\<lambda>c. c = INVALID_DATE_FORMAT \<or> c = INVALID_DATE_RANGE) (map code (validateDateRange env d))
   = map code (validateDateRange env d)"
  using codes_validateDateRange [of env d] by (auto simp add: filter_id_conv)

text \<open>
  C7. The date rule. When \<open>startDate\<close> or \<open>endDate\<close> does not parse, the rule emits the
  single error \<open>INVALID_DATE_FORMAT\<close> and makes no range check; when both parse and the
  start is greater than or equal to the end, as it is when the two strings are equal,
  it emits \<open>INVALID_DATE_RANGE\<close>; otherwise it emits nothing. These are all the date
  errors of the rule validator.
\<close>

theorem date_rule:
  "(Date_parse env (startDate d) = None \<or> Date_parse env (endDate d) = None \<longrightarrow>
      map code (validateDateRange env d) = [INVALID_DATE_FORMAT])
   \<and> (\<forall>s e. Date_parse env (startDate d) = Some s \<and> Date_parse env (endDate d) = Some e \<longrightarrow>
         (s \<ge> e \<longrightarrow> map code (validateDateRange env d) = [INVALID_DATE_RANGE])
         \<and> (s < e \<longrightarrow> validateDateRange env d = []))
   \<and> (\<forall>s. startDate d = endDate d \<and> Date_parse env (startDate d) = Some s \<longrightarrow>
         map code (validateDateRange env d) = [INVALID_DATE_RANGE])
   \<and> filter (\<lambda>c. c = INVALID_DATE_FORMAT \<or> c = INVALID_DATE_RANGE)
        (map code (validateCampaignDraft env d))
      = map code (validateDateRange env d)"
proof -
  have "filter (\<lambda>c. c = INVALID_DATE_FORMAT \<or> c = INVALID_DATE_RANGE)
          (map code (validateCampaignDraft env d))
        = map code (validateDateRange env d)"
    by (simp add: validateCampaignDraft_def other_rules_no_date_code codes_date_filter)
  then show ?thesis
    by (auto simp add: validateDateRange_def isNaN_def num_ge_def Let_def)
qed

theorem date_rule_witness:
  "Date_parse sample_builtins (startDate validDraft) = Some 1780272000000
   \<and> Date_parse sample_builtins (endDate validDraft) = Some 1782863999000
   \<and> validateDateRange sample_builtins validDraft = []
   \<and> Date_parse sample_builtins (str ''not-a-date'') = None
   \<and> map code (validateDateRange sample_builtins (validDraft\<lparr>startDate := str ''not-a-date''\<rparr>))
       = [INVALID_DATE_FORMAT]
   \<and> Date_parse sample_builtins (str ''2026-06-30T00:00:00Z'') = Some 1782777600000
   \<and> map code (validateDateRange sample_builtins
        (validDraft\<lparr>startDate := str ''2026-06-30T00:00:00Z'',
                     endDate := str ''2026-06-01T00:00:00Z''\<rparr>))
       = [INVALID_DATE_RANGE]
   \<and> map code (validateDateRange sample_builtins
        (validDraft\<lparr>endDate := str ''2026-06-01T00:00:00Z''\<rparr>))
       = [INVALID_DATE_RANGE]"
proof -
  have p: "Date_parse sample_builtins (str ''2026-06-01T00:00:00Z'') = Some 1780272000000"
    "Date_parse sample_builtins (str ''2026-06-30T23:59:59Z'') = Some 1782863999000"
    "Date_parse sample_builtins (str ''2026-06-30T00:00:00Z'') = Some 1782777600000"
    "Date_parse sample_builtins (str ''not-a-date'') = None"
    by (simp_all add: sample_builtins_def str_def)
  have f: "startDate validDraft = str ''2026-06-01T00:00:00Z''"
    "endDate validDraft = str ''2026-06-30T23:59:59Z''"
    by (simp_all add: validDraft_def)
  show ?thesis
    using p f
      date_rule [of sample_builtins validDraft]
      date_rule [of sample_builtins "validDraft\<lparr>startDate := str ''not-a-date''\<rparr>"]
      date_rule [of sample_builtins "validDraft\<lparr>startDate := str ''2026-06-30T00:00:00Z'',
                                               endDate := str ''2026-06-01T00:00:00Z''\<rparr>"]
      date_rule [of sample_builtins "validDraft\<lparr>endDate := str ''2026-06-01T00:00:00Z''\<rparr>"]
    by simp
qed

text \<open>
  C8. The media rule. The rule validator emits \<open>MEDIA_SIZE_EXCEEDS_LIMIT\<close> exactly when
  \<open>sizeInMb\<close> is greater than 50 (for a finite size \<open>x\<close>: exactly when \<open>x > 50\<close>, so 50
  passes and every value above 50 fails), and \<open>MEDIA_TYPE_NOT_ALLOWED\<close> exactly when the
  type is neither \<open>image\<close> nor \<open>video\<close>; when both conditions hold the media rule emits
  both errors.
\<close>

theorem media_rule:
  "(MEDIA_SIZE_EXCEEDS_LIMIT \<in> set (map code (validateCampaignDraft env d))
      \<longleftrightarrow> number_gt (sizeInMb (mediaAsset d)) (Finite 50))
   \<and> (\<forall>x. sizeInMb (mediaAsset d) = Finite x \<longrightarrow>
         (MEDIA_SIZE_EXCEEDS_LIMIT \<in> set (map code (validateCampaignDraft env d)) \<longleftrightarrow> x > 50))
   \<and> (MEDIA_TYPE_NOT_ALLOWED \<in> set (map code (validateCampaignDraft env d))
      \<longleftrightarrow> media_type (mediaAsset d) \<noteq> str ''image'' \<and> media_type (mediaAsset d) \<noteq> str ''video'')
   \<and> (number_gt (sizeInMb (mediaAsset d)) (Finite 50)
       \<and> media_type (mediaAsset d) \<noteq> str ''image'' \<and> media_type (mediaAsset d) \<noteq> str ''video''
       \<longrightarrow> map code (validateMediaAsset env d) = [MEDIA_SIZE_EXCEEDS_LIMIT, MEDIA_TYPE_NOT_ALLOWED])"
proof -
  have size: "(MEDIA_SIZE_EXCEEDS_LIMIT \<in> set (map code (validateCampaignDraft env d)))
              = number_gt (sizeInMb (mediaAsset d)) (Finite 50)"
    using codes_validateName [of d] codes_validateDateRange [of env d]
      codes_validateTimeSlots [of d]
    unfolding codes_validateCampaignDraft codes_validateScreenIds codes_validateMediaAsset
    by auto
  have type: "(MEDIA_TYPE_NOT_ALLOWED \<in> set (map code (validateCampaignDraft env d)))
              = (media_type (mediaAsset d) \<noteq> str ''image''
                 \<and> media_type (mediaAsset d) \<noteq> str ''video'')"
    using codes_validateName [of d] codes_validateDateRange [of env d]
      codes_validateTimeSlots [of d]
    unfolding codes_validateCampaignDraft codes_validateScreenIds codes_validateMediaAsset
    by auto
  show ?thesis
    unfolding size type by (simp add: codes_validateMediaAsset)
qed

theorem media_rule_witness:
  "MEDIA_SIZE_EXCEEDS_LIMIT \<notin> set (map code (validateCampaignDraft sample_builtins
       (validDraft\<lparr>mediaAsset := mediaAsset validDraft\<lparr>sizeInMb := Finite 50\<rparr>\<rparr>)))
   \<and> MEDIA_SIZE_EXCEEDS_LIMIT \<in> set (map code (validateCampaignDraft sample_builtins
       (validDraft\<lparr>mediaAsset := mediaAsset validDraft\<lparr>sizeInMb := Finite 50.0001\<rparr>\<rparr>)))
   \<and> number_gt (Finite 51) (Finite 50) \<and> str ''audio'' \<noteq> str ''image''
   \<and> str ''audio'' \<noteq> str ''video''
   \<and> map code (validateMediaAsset sample_builtins
       (validDraft\<lparr>mediaAsset := mediaAsset validDraft
          \<lparr>media_type := str ''audio'', sizeInMb := Finite 51\<rparr>\<rparr>))
      = [MEDIA_SIZE_EXCEEDS_LIMIT, MEDIA_TYPE_NOT_ALLOWED]"
proof -
  have a: "str ''audio'' \<noteq> str ''image''" "str ''audio'' \<noteq> str ''video''"
    by (simp_all add: str_def)
  show ?thesis
    using a
      media_rule [of sample_builtins
        "validDraft\<lparr>mediaAsset := mediaAsset validDraft\<lparr>sizeInMb := Finite 50\<rparr>\<rparr>"]
      media_rule [of sample_builtins
        "validDraft\<lparr>mediaAsset := mediaAsset validDraft\<lparr>sizeInMb := Finite 50.0001\<rparr>\<rparr>"]
      media_rule [of sample_builtins
        "validDraft\<lparr>mediaAsset := mediaAsset validDraft
           \<lparr>media_type := str ''audio'', sizeInMb := Finite 51\<rparr>\<rparr>"]
    by simp
qed

text \<open>
  C10. The screen rule looks at the length of \<open>screenIds\<close> only: the rule validator
  emits \<open>EMPTY_SCREEN_SELECTION\<close> exactly when the list is empty, whatever the
  identifiers are. So a draft whose \<open>screenIds\<close> is the one-element list with the empty
  string gets no such error, and that is the draft \<open>START_CREATION\<close> creates from \<open>idle\<close>.
\<close>

theorem blank_screen_id_passes:
  "(screenIds d = [str ''''] \<longrightarrow>
      validateScreenIds d = []
      \<and> EMPTY_SCREEN_SELECTION \<notin> set (map code (validateCampaignDraft env d)))
   \<and> (EMPTY_SCREEN_SELECTION \<in> set (map code (validateCampaignDraft env d))
      \<longleftrightarrow> length (screenIds d) = 0)
   \<and> transition Idle START_CREATION = Editing empty_draft
   \<and> screenIds empty_draft = [str '''']"
  using codes_validateName [of d] codes_validateDateRange [of env d]
    codes_validateTimeSlots [of d]
  unfolding codes_validateCampaignDraft codes_validateScreenIds codes_validateMediaAsset
  by (auto simp add: validateScreenIds_def empty_draft_def)

theorem blank_screen_id_passes_witness:
  "screenIds empty_draft = [str '''']
   \<and> validateScreenIds empty_draft = []
   \<and> EMPTY_SCREEN_SELECTION \<notin> set (map code (validateCampaignDraft sample_builtins empty_draft))"
  using blank_screen_id_passes [of empty_draft sample_builtins] by simp

section \<open>Overlap detection\<close>

lemma well_formed_parses:
  "well_formed slot \<Longrightarrow>
   \<exists>s e. parseHHmm (startTime slot) = Some s \<and> parseHHmm (endTime slot) = Some e \<and> s < e"
  by (auto simp add: well_formed_def split: option.splits)

lemma insert_sorted_insort_key:
  "\<forall>slot\<in>set (x # ys). well_formed slot \<Longrightarrow>
   insert_sorted compare_start x ys = insort_key start_minutes x ys"
proof (induction ys)
  case Nil
  then show ?case by simp
next
  case (Cons y ys)
  from Cons.prems obtain a b where "parseHHmm (startTime x) = Some a"
    and "parseHHmm (startTime y) = Some b"
    using well_formed_parses by (metis list.set_intros(1) list.set_intros(2))
  then have "(sort_compare compare_start x y \<le> 0) = (start_minutes x \<le> start_minutes y)"
    by (simp add: sort_compare_def compare_start_def num_sub_def start_minutes_def)
  with Cons show ?case by simp
qed

lemma array_sort_sorted_by_start:
  "\<forall>slot\<in>set xs. well_formed slot \<Longrightarrow> array_sort compare_start xs = sorted_by_start xs"
proof (induction xs)
  case Nil
  then show ?case by (simp add: array_sort_def sorted_by_start_def)
next
  case (Cons x xs)
  then have "array_sort compare_start xs = sort_key start_minutes xs"
    by (simp add: sorted_by_start_def)
  moreover have "\<forall>slot\<in>set (x # sort_key start_minutes xs). well_formed slot"
    using Cons.prems by simp
  ultimately show ?case
    using insert_sorted_insort_key [of x "sort_key start_minutes xs"]
    by (simp add: array_sort_def sorted_by_start_def)
qed

lemma overlap_errors_adjacent:
  "\<forall>slot\<in>set xs. well_formed slot \<Longrightarrow>
   (OVERLAPPING_TIME_SLOTS \<in> set (map code (overlap_errors xs))) = adjacent_overlap xs"
proof (induction xs rule: overlap_errors.induct)
  case (1 cur nxt rest)
  from "1.prems" obtain e s where "parseHHmm (endTime cur) = Some e"
    and "parseHHmm (startTime nxt) = Some s"
    using well_formed_parses by (metis list.set_intros(1) list.set_intros(2))
  then have "num_gt (parseHHmm (endTime cur)) (parseHHmm (startTime nxt))
             = (end_minutes cur > start_minutes nxt)"
    by (simp add: num_gt_def end_minutes_def start_minutes_def)
  moreover have "(OVERLAPPING_TIME_SLOTS \<in> set (map code (overlap_errors (nxt # rest))))
                 = adjacent_overlap (nxt # rest)"
    using 1 by simp
  ultimately show ?case
    by (auto simp add: adjacent_overlap_def Let_def)
qed (simp_all add: adjacent_overlap_def)

lemma validateTimeSlots_overlap:
  "(OVERLAPPING_TIME_SLOTS \<in> set (map code (validateTimeSlots d))) =
     ((\<forall>slot\<in>set (timeSlots d). well_formed slot)
      \<and> adjacent_overlap (sorted_by_start (timeSlots d)))"
proof (cases "\<forall>slot\<in>set (timeSlots d). well_formed slot")
  case True
  then have "concat (map slot_errors (timeSlots d)) = []"
    using slot_errors_empty [of "timeSlots d"] by blast
  moreover have "\<forall>slot\<in>set (sorted_by_start (timeSlots d)). well_formed slot"
    using True by (simp add: sorted_by_start_def)
  ultimately show ?thesis
    using True overlap_errors_adjacent [of "sorted_by_start (timeSlots d)"]
    by (simp add: validateTimeSlots_def array_sort_sorted_by_start)
next
  case False
  then have "concat (map slot_errors (timeSlots d)) \<noteq> []"
    using slot_errors_empty [of "timeSlots d"] by blast
  then show ?thesis
    using False codes_all_slot_errors [of "timeSlots d"]
    by (auto simp add: validateTimeSlots_def Let_def)
qed

text \<open>
  C4. For a draft all of whose time slots are well formed, the rule validator emits
  \<open>OVERLAPPING_TIME_SLOTS\<close> exactly when, once the slots are sorted by start time
  ascending, some adjacent pair has the end of the earlier slot strictly after the start
  of the later one (an end equal to the next start is no overlap). When some slot is
  malformed, no \<open>OVERLAPPING_TIME_SLOTS\<close> is emitted at all.
\<close>

theorem overlap_detection:
  "((\<forall>slot\<in>set (timeSlots d). well_formed slot) \<longrightarrow>
      (OVERLAPPING_TIME_SLOTS \<in> set (map code (validateCampaignDraft env d)))
        = adjacent_overlap (sorted_by_start (timeSlots d)))
   \<and> ((\<exists>slot\<in>set (timeSlots d). \<not> well_formed slot) \<longrightarrow>
      OVERLAPPING_TIME_SLOTS \<notin> set (map code (validateCampaignDraft env d)))"
proof -
  have "(OVERLAPPING_TIME_SLOTS \<in> set (map code (validateCampaignDraft env d)))
        = (OVERLAPPING_TIME_SLOTS \<in> set (map code (validateTimeSlots d)))"
    using codes_validateName [of d] codes_validateDateRange [of env d]
    unfolding codes_validateCampaignDraft codes_validateScreenIds codes_validateMediaAsset
    by auto
  then show ?thesis
    unfolding validateTimeSlots_overlap by blast
qed

theorem overlap_detection_witness:
  "list_all well_formed overlappingSlots
   \<and> adjacent_overlap (sorted_by_start overlappingSlots)
   \<and> OVERLAPPING_TIME_SLOTS \<in> set (map code (validateCampaignDraft sample_builtins
        (validDraft\<lparr>timeSlots := overlappingSlots\<rparr>)))
   \<and> list_all well_formed touchingSlots
   \<and> \<not> adjacent_overlap (sorted_by_start touchingSlots)
   \<and> OVERLAPPING_TIME_SLOTS \<notin> set (map code (validateCampaignDraft sample_builtins
        (validDraft\<lparr>timeSlots := touchingSlots\<rparr>)))
   \<and> (\<exists>slot\<in>set malformedSlots. \<not> well_formed slot)
   \<and> OVERLAPPING_TIME_SLOTS \<notin> set (map code (validateCampaignDraft sample_builtins
        (validDraft\<lparr>timeSlots := malformedSlots\<rparr>)))"
proof -
  have o: "\<forall>slot\<in>set overlappingSlots. well_formed slot"
    "adjacent_overlap (sorted_by_start overlappingSlots)"
    by code_simp+
  have t: "\<forall>slot\<in>set touchingSlots. well_formed slot"
    "\<not> adjacent_overlap (sorted_by_start touchingSlots)"
    by code_simp+
  have m: "\<exists>slot\<in>set malformedSlots. \<not> well_formed slot"
    by code_simp
  show ?thesis
    using o t m
      overlap_detection [of "validDraft\<lparr>timeSlots := overlappingSlots\<rparr>" sample_builtins]
      overlap_detection [of "validDraft\<lparr>timeSlots := touchingSlots\<rparr>" sample_builtins]
      overlap_detection [of "validDraft\<lparr>timeSlots := malformedSlots\<rparr>" sample_builtins]
    by (simp add: list_all_iff)
qed

end
